theory Spec2Isabelle
  imports Complex_Main "HOL-Library.Sublist"
begin

section \<open>JavaScript values, objects and the object store\<close>

text \<open>
  The adapter handles plain JavaScript objects: the constructor's option bag, the
  chat-completion request payload, the serialized form of a client and the model
  profiles. A value is a primitive or an object; an object (arrays included, keyed by
  their indices) is a finite table from property names to values, where a name that is
  not a property maps to \<open>None\<close>. Numbers are only carried around by the adapter, never
  computed with.
\<close>

datatype jsval =
    JUndefined
  | JNull
  | JBool bool
  | JNum real
  | JStr string
  | JObj "string \<Rightarrow> jsval option"

type_synonym obj = "string \<rightharpoonup> jsval"

text \<open>
  \<open>completionWithRetry\<close> receives its request by reference and removes properties from
  that very object, so the request lives in a store of objects addressed by references.
  The parameter type admits neither \<open>null\<close> nor \<open>undefined\<close>, so a reference always
  denotes an object.
\<close>

type_synonym ref = nat
type_synonym heap = "ref \<Rightarrow> obj"

text \<open>\<^verbatim>\<open>delete o.k\<close>: the property \<open>k\<close> of the object at \<open>o\<close> is removed in place.\<close>

definition delete_property :: "heap \<Rightarrow> ref \<Rightarrow> string \<Rightarrow> heap" where
  "delete_property h o_ref k = h(o_ref := (h o_ref)(k := None))"


section \<open>Request sanitization: \<open>ChatAIBadgr.completionWithRetry\<close>\<close>

text \<open>
  \<^verbatim>\<open>
  async completionWithRetry(request, options) {
    delete request.frequency_penalty;
    delete request.presence_penalty;
    delete request.logit_bias;
    delete request.functions;
    return super.completionWithRetry(request, options);
  }
  \<close>
  The inherited method of the wrapped OpenAI-compatible client is a parameter: it gets
  the store as the four deletions left it, the same request reference and the options,
  and its result is returned as it is.
\<close>

definition completionWithRetry ::
  "(heap \<Rightarrow> ref \<Rightarrow> 'o \<Rightarrow> 'r) \<Rightarrow> heap \<Rightarrow> ref \<Rightarrow> 'o \<Rightarrow> 'r" where
  "completionWithRetry super_completionWithRetry h request opts =
     (let h1 = delete_property h request ''frequency_penalty'';
          h2 = delete_property h1 request ''presence_penalty'';
          h3 = delete_property h2 request ''logit_bias'';
          h4 = delete_property h3 request ''functions''
      in super_completionWithRetry h4 request opts)"


section \<open>Credential and endpoint resolution: the constructor of \<open>ChatAIBadgr\<close>\<close>

text \<open>
  The constructor's option bag. The fields the constructor reads or overwrites are named;
  \<open>rest\<close> holds every other option of the bag (temperature, sampling controls, ...),
  which the constructor only passes on. Each named field is optional: \<open>None\<close> is a
  field that is missing or \<open>undefined\<close>.
\<close>

record ChatAIBadgrFields =
  apiKey :: "string option"
  aibadgrApiKey :: "string option"
  model :: "string option"
  configuration :: "obj option"
  rest :: obj

text \<open>The constructor throws a JavaScript \<open>Error\<close> carrying a message.\<close>

datatype error = Error string

text \<open>
  Truthiness of a value of type \<open>string | undefined\<close>: \<open>undefined\<close> and the empty
  string are falsy, every other string is truthy. \<open>a || b\<close> is \<open>a\<close> when \<open>a\<close> is
  truthy and \<open>b\<close> otherwise.
\<close>

definition truthy :: "string option \<Rightarrow> bool" where
  "truthy v = (case v of None \<Rightarrow> False | Some s \<Rightarrow> s \<noteq> [])"

definition js_or :: "string option \<Rightarrow> string option \<Rightarrow> string option" where
  "js_or a b = (if truthy a then a else b)"

text \<open>
  The bag itself is optional. \<open>fields?.x\<close> is \<open>undefined\<close> when there is no bag, and
  spreading a missing bag, \<open>{...fields}\<close>, contributes no property.
\<close>

definition optional_chain ::
  "ChatAIBadgrFields option \<Rightarrow> (ChatAIBadgrFields \<Rightarrow> 'a option) \<Rightarrow> 'a option" where
  "optional_chain flds sel = (case flds of None \<Rightarrow> None | Some f \<Rightarrow> sel f)"

definition spread :: "ChatAIBadgrFields option \<Rightarrow> ChatAIBadgrFields" where
  "spread flds =
     (case flds of
        None \<Rightarrow> \<lparr>apiKey = None, aibadgrApiKey = None, model = None,
                 configuration = None, rest = Map.empty\<rparr>
      | Some f \<Rightarrow> f)"

text \<open>
  The message of the error thrown when no key is found: the template literal of the
  constructor, whose last word, the field name, stands between double quotes
  (character \<open>0x22\<close>).
\<close>

definition key_not_found_message :: string where
  "key_not_found_message =
     ''AI Badgr API key not found. Please set the AIBADGR_API_KEY environment variable or provide the key into ''
     @ [CHR 0x22] @ ''aibadgrApiKey'' @ [CHR 0x22]"

text \<open>
  \<^verbatim>\<open>
  constructor(fields?) {
    const aibadgrApiKey =
      fields?.apiKey || fields?.aibadgrApiKey || getEnvironmentVariable("AIBADGR_API_KEY");
    if (!aibadgrApiKey) { throw new Error(...); }
    super({
      ...fields,
      model: fields?.model || "gpt-4",
      apiKey: aibadgrApiKey,
      configuration: { baseURL: "https://aibadgr.com/api/v1" },
    });
  }
  \<close>
  The environment lookup is a parameter. The constructor either throws or calls the
  constructor of the wrapped OpenAI-compatible client with one option bag: the result is
  that error or that bag.
\<close>

definition ChatAIBadgr_constructor ::
  "(string \<Rightarrow> string option) \<Rightarrow> ChatAIBadgrFields option \<Rightarrow> error + ChatAIBadgrFields" where
  "ChatAIBadgr_constructor getEnvironmentVariable flds =
     (let key = js_or (js_or (optional_chain flds apiKey) (optional_chain flds aibadgrApiKey))
                      (getEnvironmentVariable ''AIBADGR_API_KEY'')
      in if \<not> truthy key then Inl (Error key_not_found_message)
         else Inr ((spread flds)
                \<lparr>model := js_or (optional_chain flds model) (Some ''gpt-4''),
                 apiKey := key,
                 configuration := Some [''baseURL'' \<mapsto> JStr ''https://aibadgr.com/api/v1'']\<rparr>))"

text \<open>
  The resolver in the specification's words: the first non-empty value of a list of
  optional values, taken in order.
\<close>

fun spec_first_nonempty :: "string option list \<Rightarrow> string option" where
  "spec_first_nonempty [] = None"
| "spec_first_nonempty (None # vs) = spec_first_nonempty vs"
| "spec_first_nonempty (Some s # vs) = (if s = [] then spec_first_nonempty vs else Some s)"


section \<open>Redacted serialization: \<open>ChatAIBadgr.toJSON\<close>\<close>

text \<open>Reading a property: a name that is not a property reads as \<open>undefined\<close>.\<close>

definition get_property :: "obj \<Rightarrow> string \<Rightarrow> jsval" where
  "get_property ob k = (case ob k of None \<Rightarrow> JUndefined | Some v \<Rightarrow> v)"

fun typeof :: "jsval \<Rightarrow> string" where
  "typeof JUndefined = ''undefined''"
| "typeof JNull = ''object''"
| "typeof (JBool b) = ''boolean''"
| "typeof (JNum n) = ''number''"
| "typeof (JStr s) = ''string''"
| "typeof (JObj ob) = ''object''"

text \<open>
  \<^verbatim>\<open>
  toJSON() {
    const result = super.toJSON();
    if ("kwargs" in result && typeof result.kwargs === "object" && result.kwargs != null) {
      delete result.kwargs.openai_api_key;
      delete result.kwargs.configuration;
    }
    return result;
  }
  \<close>
  The inherited serializer is a parameter; it builds the record that \<open>toJSON\<close> then
  edits and returns.
\<close>

definition toJSON :: "('c \<Rightarrow> obj) \<Rightarrow> 'c \<Rightarrow> obj" where
  "toJSON super_toJSON this =
     (let result = super_toJSON this; kwargs = get_property result ''kwargs''
      in if result ''kwargs'' \<noteq> None \<and> typeof kwargs = ''object''
            \<and> kwargs \<noteq> JNull \<and> kwargs \<noteq> JUndefined
         then (case kwargs of
                 JObj kw \<Rightarrow>
                   result(''kwargs'' \<mapsto>
                     JObj (kw(''openai_api_key'' := None, ''configuration'' := None)))
               | _ \<Rightarrow> result)
         else result)"


section \<open>The profile table\<close>

text \<open>
  A profile is a plain object. \<open>createProfile\<close> spreads the base profile and adds the
  two token limits; \<open>PROFILES\<close> is the table from model names to profiles.
\<close>

definition BASE_PROFILE :: obj where
  "BASE_PROFILE =
     [''imageInputs'' \<mapsto> JBool False,
      ''audioInputs'' \<mapsto> JBool False,
      ''pdfInputs'' \<mapsto> JBool False,
      ''videoInputs'' \<mapsto> JBool False,
      ''reasoningOutput'' \<mapsto> JBool False,
      ''imageOutputs'' \<mapsto> JBool False,
      ''audioOutputs'' \<mapsto> JBool False,
      ''videoOutputs'' \<mapsto> JBool False,
      ''toolCalling'' \<mapsto> JBool True,
      ''structuredOutput'' \<mapsto> JBool False]"

definition createProfile :: "real \<Rightarrow> real \<Rightarrow> obj" where
  "createProfile maxInputTokens maxOutputTokens =
     BASE_PROFILE ++ [''maxInputTokens'' \<mapsto> JNum maxInputTokens,
                      ''maxOutputTokens'' \<mapsto> JNum maxOutputTokens]"

definition PROFILES :: "string \<rightharpoonup> obj" where
  "PROFILES =
     [''basic'' \<mapsto> createProfile 8192 4096,
      ''normal'' \<mapsto> createProfile 16384 8192,
      ''premium'' \<mapsto> createProfile 32768 16384,
      ''phi-3-mini'' \<mapsto> createProfile 8192 4096,
      ''mistral-7b'' \<mapsto> createProfile 16384 8192,
      ''llama3-8b-instruct'' \<mapsto> createProfile 32768 16384]"

text \<open>
  Modelled from the spec: the profile getter of the client, which the tests call as
  \<open>model.profile\<close> and which is not among the source files (only the table it reads
  is). The specification: lookup is a direct key match on the table, and an unknown key
  gives an empty profile instead of failing.
\<close>

definition lookup :: "string \<Rightarrow> obj" where
  "lookup modelName = (case PROFILES modelName of Some profile \<Rightarrow> profile | None \<Rightarrow> Map.empty)"


section \<open>A recording client and example inputs\<close>

text \<open>
  A wrapped client that returns what it was called with: the store, the request reference
  and the options. Running \<open>completionWithRetry\<close> over it shows the store as the
  wrapped client, and then the caller, find it.
\<close>

definition handed_over :: "heap \<Rightarrow> ref \<Rightarrow> 'o \<Rightarrow> heap \<times> ref \<times> 'o" where
  "handed_over h request opts = (h, request, opts)"

text \<open>A streaming request that carries the four unsupported fields, at reference 0.\<close>

definition request_example :: obj where
  "request_example =
     [''model'' \<mapsto> JStr ''premium'',
      ''messages'' \<mapsto> JObj [''0'' \<mapsto> JObj [''role'' \<mapsto> JStr ''user'',
                                              ''content'' \<mapsto> JStr ''Hello there!'']],
      ''temperature'' \<mapsto> JNum 0,
      ''stream'' \<mapsto> JBool True,
      ''frequency_penalty'' \<mapsto> JNum 1,
      ''presence_penalty'' \<mapsto> JNum 1,
      ''logit_bias'' \<mapsto> JObj Map.empty,
      ''functions'' \<mapsto> JObj Map.empty]"

definition heap_example :: heap where
  "heap_example = (\<lambda>r. Map.empty)(0 := request_example)"

text \<open>
  An option bag with an empty \<open>apiKey\<close>, an \<open>aibadgrApiKey\<close>, a model and an endpoint
  block of the caller's own; an environment that holds a key.
\<close>

definition fields_example :: ChatAIBadgrFields where
  "fields_example =
     \<lparr>apiKey = Some [], aibadgrApiKey = Some ''alias-key'', model = Some ''basic'',
      configuration = Some [''baseURL'' \<mapsto> JStr ''https://example.org/v1''],
      rest = [''temperature'' \<mapsto> JNum 0]\<rparr>"

definition env_example :: "string \<Rightarrow> string option" where
  "env_example = [''AIBADGR_API_KEY'' \<mapsto> ''env-key'']"

text \<open>The option bags of the unit tests: a key alone, a key with a model, a model alone.\<close>

definition fields_key_only :: ChatAIBadgrFields where
  "fields_key_only =
     \<lparr>apiKey = Some ''test-api-key'', aibadgrApiKey = None, model = None,
      configuration = None, rest = Map.empty\<rparr>"

definition fields_key_basic :: ChatAIBadgrFields where
  "fields_key_basic =
     \<lparr>apiKey = Some ''test-api-key'', aibadgrApiKey = None, model = Some ''basic'',
      configuration = None, rest = Map.empty\<rparr>"

definition fields_no_key :: ChatAIBadgrFields where
  "fields_no_key =
     \<lparr>apiKey = None, aibadgrApiKey = None, model = Some ''premium'',
      configuration = None, rest = Map.empty\<rparr>"

definition env_empty :: "string \<Rightarrow> string option" where
  "env_empty = Map.empty"

text \<open>
  A record as an inherited serializer may build it, with a masked key and an endpoint
  block among its \<open>kwargs\<close>; and those \<open>kwargs\<close> without the two.
\<close>

definition kwargs_example :: obj where
  "kwargs_example =
     [''model'' \<mapsto> JStr ''premium'',
      ''openai_api_key'' \<mapsto> JObj [''lc'' \<mapsto> JNum 1, ''type'' \<mapsto> JStr ''secret''],
      ''configuration'' \<mapsto> JObj [''baseURL'' \<mapsto> JStr ''https://aibadgr.com/api/v1'']]"

definition serialized_example :: obj where
  "serialized_example =
     [''lc'' \<mapsto> JNum 1, ''type'' \<mapsto> JStr ''constructor'', ''kwargs'' \<mapsto> JObj kwargs_example]"


section \<open>Properties of request sanitization\<close>

lemma delete_property_same:
  "delete_property h r k r = (h r)(k := None)"
  by (simp add: delete_property_def)

lemma delete_property_other:
  "r' \<noteq> r \<Longrightarrow> delete_property h r k r' = h r'"
  by (simp add: delete_property_def)

lemma four_deletes_object:
  "(ob :: obj)(''frequency_penalty'' := None, ''presence_penalty'' := None,
       ''logit_bias'' := None, ''functions'' := None)
   = ob |` (- {''frequency_penalty'', ''presence_penalty'', ''logit_bias'', ''functions''})"
  by (rule ext) (simp add: restrict_map_def)

lemma four_deletes_heap:
  "delete_property (delete_property (delete_property (delete_property h r
       ''frequency_penalty'') r ''presence_penalty'') r ''logit_bias'') r ''functions''
   = h(r := h r |` (- {''frequency_penalty'', ''presence_penalty'', ''logit_bias'', ''functions''}))"
proof (rule ext)
  fix r'
  show "delete_property (delete_property (delete_property (delete_property h r
       ''frequency_penalty'') r ''presence_penalty'') r ''logit_bias'') r ''functions'' r'
   = (h(r := h r |` (- {''frequency_penalty'', ''presence_penalty'', ''logit_bias'', ''functions''}))) r'"
  proof (cases "r' = r")
    case True
    then show ?thesis
      by (simp add: delete_property_same four_deletes_object)
  next
    case False
    then show ?thesis
      by (simp add: delete_property_other)
  qed
qed

lemma completionWithRetry_delegates:
  "completionWithRetry f h request opts =
     f (h(request := h request |`
          (- {''frequency_penalty'', ''presence_penalty'', ''logit_bias'', ''functions''})))
       request opts"
  unfolding completionWithRetry_def Let_def four_deletes_heap ..

lemma restrict_unchanged_iff:
  "(m |` (- U) = m) \<longleftrightarrow> dom m \<inter> U = {}"
proof
  assume e: "m |` (- U) = m"
  have "dom (m |` (- U)) = dom m - U"
    by (auto simp: restrict_map_def dom_def)
  with e show "dom m \<inter> U = {}"
    by auto
next
  assume d: "dom m \<inter> U = {}"
  show "m |` (- U) = m"
  proof (rule ext)
    fix k
    show "(m |` (- U)) k = m k"
    proof (cases "k \<in> U")
      case True
      with d have "k \<notin> dom m"
        by blast
      then have "m k = None"
        by (simp add: dom_def)
      with True show ?thesis
        by (simp add: restrict_map_def)
    next
      case False
      then show ?thesis
        by (simp add: restrict_map_def)
    qed
  qed
qed

text \<open>
  C1. For every request payload, streaming or not, and every wrapped client, the payload
  the wrapped client's \<open>completionWithRetry\<close> is called with (the object at the request
  reference, in the store handed over) has no \<open>frequency_penalty\<close>, \<open>presence_penalty\<close>,
  \<open>logit_bias\<close> or \<open>functions\<close> field, and every other field (\<open>messages\<close>,
  \<open>temperature\<close>, \<open>tools\<close>, \<open>stream\<close>, ...) has the value it had in the original
  request. The reference and the options are passed on as they are.
\<close>

theorem completionWithRetry_payload:
  "\<exists>h'. completionWithRetry client h request opts = client h' request opts
       \<and> completionWithRetry handed_over h request opts = (h', request, opts)
       \<and> h' request ''frequency_penalty'' = None
       \<and> h' request ''presence_penalty'' = None
       \<and> h' request ''logit_bias'' = None
       \<and> h' request ''functions'' = None
       \<and> (\<forall>k. k \<notin> {''frequency_penalty'', ''presence_penalty'', ''logit_bias'', ''functions''}
             \<longrightarrow> h' request k = h request k)"
proof -
  let ?U = "{''frequency_penalty'', ''presence_penalty'', ''logit_bias'', ''functions''}"
  let ?h' = "h(request := h request |` (- ?U))"
  have "completionWithRetry client h request opts = client ?h' request opts"
    by (rule completionWithRetry_delegates)
  moreover have "completionWithRetry handed_over h request opts = (?h', request, opts)"
    by (simp add: completionWithRetry_delegates handed_over_def)
  moreover have "?h' request ''frequency_penalty'' = None" "?h' request ''presence_penalty'' = None"
    "?h' request ''logit_bias'' = None" "?h' request ''functions'' = None"
    by simp_all
  moreover have "\<forall>k. k \<notin> ?U \<longrightarrow> ?h' request k = h request k"
    by simp
  ultimately show ?thesis
    by blast
qed

theorem completionWithRetry_payload_witness:
  "fst (completionWithRetry handed_over heap_example 0 ()) 0 ''frequency_penalty'' = None
   \<and> fst (completionWithRetry handed_over heap_example 0 ()) 0 ''functions'' = None
   \<and> fst (completionWithRetry handed_over heap_example 0 ()) 0 ''temperature'' = Some (JNum 0)
   \<and> fst (completionWithRetry handed_over heap_example 0 ()) 0 ''stream'' = Some (JBool True)"
proof -
  obtain h' where
    a: "completionWithRetry handed_over heap_example 0 () = (h', 0, ())" and
    b: "h' 0 ''frequency_penalty'' = None" "h' 0 ''functions'' = None" and
    c: "\<forall>k. k \<notin> {''frequency_penalty'', ''presence_penalty'', ''logit_bias'', ''functions''}
          \<longrightarrow> h' 0 k = heap_example 0 k"
    using completionWithRetry_payload [of handed_over heap_example 0 "()"] by blast
  from c have "h' 0 ''temperature'' = heap_example 0 ''temperature''"
    and "h' 0 ''stream'' = heap_example 0 ''stream''"
    by simp_all
  then have "h' 0 ''temperature'' = Some (JNum 0)" and "h' 0 ''stream'' = Some (JBool True)"
    by (simp_all add: heap_example_def request_example_def)
  with a b show ?thesis
    by simp
qed

text \<open>
  C9, as the specification states it: sanitization leaves the object the caller passed
  in unchanged. It does not: the request of the example has lost fields when the call
  is over.
\<close>

theorem completionWithRetry_pure_counterexample:
  "fst (completionWithRetry handed_over heap_example 0 ()) 0 \<noteq> heap_example 0"
proof
  assume "fst (completionWithRetry handed_over heap_example 0 ()) 0 = heap_example 0"
  then have "fst (completionWithRetry handed_over heap_example 0 ()) 0 ''frequency_penalty''
      = heap_example 0 ''frequency_penalty''"
    by simp
  then show False
    by (simp add: completionWithRetry_delegates handed_over_def heap_example_def
        request_example_def)
qed

text \<open>
  C9, amended. Sanitization works in place on the object the caller passed in: when the
  call is over that object is the original one without the four unsupported fields, so
  it is unchanged exactly when it had none of them; every other object of the store is
  left as it was.
\<close>

theorem completionWithRetry_mutates_request:
  "fst (completionWithRetry handed_over h request opts) request =
     h request |` (- {''frequency_penalty'', ''presence_penalty'', ''logit_bias'', ''functions''})
   \<and> (fst (completionWithRetry handed_over h request opts) request = h request
        \<longleftrightarrow> dom (h request)
             \<inter> {''frequency_penalty'', ''presence_penalty'', ''logit_bias'', ''functions''} = {})
   \<and> (\<forall>r. r \<noteq> request \<longrightarrow> fst (completionWithRetry handed_over h request opts) r = h r)"
  by (simp add: completionWithRetry_delegates handed_over_def restrict_unchanged_iff)

theorem completionWithRetry_mutates_request_witness:
  "fst (completionWithRetry handed_over heap_example 0 ()) 0 ''logit_bias'' = None
   \<and> heap_example 0 ''logit_bias'' = Some (JObj Map.empty)
   \<and> fst (completionWithRetry handed_over heap_example 0 ()) 1 = heap_example 1"
proof -
  note t = completionWithRetry_mutates_request [of heap_example 0 "()"]
  from t have "fst (completionWithRetry handed_over heap_example 0 ()) 0 ''logit_bias'' = None"
    by simp
  moreover from t have "fst (completionWithRetry handed_over heap_example 0 ()) 1 = heap_example 1"
    by simp
  moreover have "heap_example 0 ''logit_bias'' = Some (JObj Map.empty)"
    by (simp add: heap_example_def request_example_def)
  ultimately show ?thesis
    by blast
qed


section \<open>Properties of the constructor\<close>

lemma js_or_chain_falsy:
  "\<not> truthy (js_or (js_or a b) c) \<longleftrightarrow> \<not> truthy a \<and> \<not> truthy b \<and> \<not> truthy c"
  by (simp add: js_or_def)

lemma js_or_chain_eq_spec:
  "truthy (js_or (js_or a b) c) \<Longrightarrow> spec_first_nonempty [a, b, c] = js_or (js_or a b) c"
  by (cases a; cases b; cases c) (auto simp: js_or_def truthy_def split: if_splits)

lemma spec_first_nonempty_None:
  "spec_first_nonempty [a, b, c] = None \<longleftrightarrow> \<not> truthy a \<and> \<not> truthy b \<and> \<not> truthy c"
  by (cases a; cases b; cases c) (auto simp: truthy_def split: if_splits)

lemma falsy_iff: "\<not> truthy v \<longleftrightarrow> v \<in> {None, Some []}"
  by (cases v) (simp_all add: truthy_def)

lemma message_names:
  "sublist ''AIBADGR_API_KEY'' key_not_found_message"
  "sublist ''aibadgrApiKey'' key_not_found_message"
  unfolding key_not_found_message_def by code_simp+

text \<open>
  C2. The three sources of the key are the field \<open>apiKey\<close>, the field \<open>aibadgrApiKey\<close>
  and the environment variable \<open>AIBADGR_API_KEY\<close>, read in this order. Whenever at
  least one of them is a non-empty string, that is, whenever the first non-empty value
  of the three in this order exists, construction succeeds and the key handed to the
  wrapped client is that value.
\<close>

theorem constructor_resolves_api_key:
  "spec_first_nonempty [optional_chain flds apiKey, optional_chain flds aibadgrApiKey,
                        getenv ''AIBADGR_API_KEY''] = Some k
   \<Longrightarrow> \<exists>args. ChatAIBadgr_constructor getenv flds = Inr args \<and> apiKey args = Some k"
proof -
  let ?a = "optional_chain flds apiKey" and ?b = "optional_chain flds aibadgrApiKey"
    and ?c = "getenv ''AIBADGR_API_KEY''"
  assume k: "spec_first_nonempty [?a, ?b, ?c] = Some k"
  then have "\<not> (\<not> truthy ?a \<and> \<not> truthy ?b \<and> \<not> truthy ?c)"
    using spec_first_nonempty_None [of ?a ?b ?c] by simp
  then have t: "truthy (js_or (js_or ?a ?b) ?c)"
    using js_or_chain_falsy [of ?a ?b ?c] by blast
  then have "js_or (js_or ?a ?b) ?c = Some k"
    using js_or_chain_eq_spec [of ?a ?b ?c] k by simp
  with t show ?thesis
    by (simp add: ChatAIBadgr_constructor_def Let_def)
qed

theorem constructor_resolves_api_key_witness:
  "spec_first_nonempty [Some [], Some ''alias-key'', Some ''env-key''] = Some ''alias-key''
   \<and> (\<exists>args. ChatAIBadgr_constructor env_example (Some fields_example) = Inr args
        \<and> apiKey args = Some ''alias-key'')"
  using constructor_resolves_api_key [of "Some fields_example" env_example "''alias-key''"]
  by (simp add: optional_chain_def fields_example_def env_example_def)

text \<open>
  C3. The constructor throws exactly when none of the three sources holds a non-empty
  string. The error it throws is always the same one, and its message contains the name
  of the environment variable, \<open>AIBADGR_API_KEY\<close>, and the name of a constructor field
  that takes the key, \<open>aibadgrApiKey\<close>. The constructor has no other error, and
  \<open>completionWithRetry\<close>, \<open>toJSON\<close> and the profile table have none at all.
\<close>

theorem constructor_throws_iff_no_key:
  "((\<exists>e. ChatAIBadgr_constructor getenv flds = Inl e) \<longleftrightarrow>
      optional_chain flds apiKey \<in> {None, Some []}
      \<and> optional_chain flds aibadgrApiKey \<in> {None, Some []}
      \<and> getenv ''AIBADGR_API_KEY'' \<in> {None, Some []})
   \<and> (\<forall>e. ChatAIBadgr_constructor getenv flds = Inl e \<longrightarrow>
         e = Error key_not_found_message
         \<and> sublist ''AIBADGR_API_KEY'' key_not_found_message
         \<and> sublist ''aibadgrApiKey'' key_not_found_message)"
proof -
  have "(\<exists>e. ChatAIBadgr_constructor getenv flds = Inl e) \<longleftrightarrow>
      \<not> truthy (js_or (js_or (optional_chain flds apiKey) (optional_chain flds aibadgrApiKey))
                      (getenv ''AIBADGR_API_KEY''))"
    by (simp add: ChatAIBadgr_constructor_def Let_def)
  also have "\<dots> \<longleftrightarrow> \<not> truthy (optional_chain flds apiKey)
      \<and> \<not> truthy (optional_chain flds aibadgrApiKey)
      \<and> \<not> truthy (getenv ''AIBADGR_API_KEY'')"
    by (rule js_or_chain_falsy)
  also have "\<dots> \<longleftrightarrow> optional_chain flds apiKey \<in> {None, Some []}
      \<and> optional_chain flds aibadgrApiKey \<in> {None, Some []}
      \<and> getenv ''AIBADGR_API_KEY'' \<in> {None, Some []}"
    by (simp only: falsy_iff)
  finally have 1: "(\<exists>e. ChatAIBadgr_constructor getenv flds = Inl e) \<longleftrightarrow>
      optional_chain flds apiKey \<in> {None, Some []}
      \<and> optional_chain flds aibadgrApiKey \<in> {None, Some []}
      \<and> getenv ''AIBADGR_API_KEY'' \<in> {None, Some []}" .
  have 2: "ChatAIBadgr_constructor getenv flds = Inl e \<Longrightarrow> e = Error key_not_found_message" for e
    by (simp add: ChatAIBadgr_constructor_def Let_def split: if_splits)
  from 1 2 message_names show ?thesis
    by blast
qed

theorem constructor_throws_iff_no_key_witness:
  "ChatAIBadgr_constructor env_empty (Some fields_no_key) = Inl (Error key_not_found_message)
   \<and> sublist ''AIBADGR_API_KEY'' key_not_found_message
   \<and> sublist ''aibadgrApiKey'' key_not_found_message"
proof -
  have "optional_chain (Some fields_no_key) apiKey \<in> {None, Some []}
      \<and> optional_chain (Some fields_no_key) aibadgrApiKey \<in> {None, Some []}
      \<and> env_empty ''AIBADGR_API_KEY'' \<in> {None, Some []}"
    by (simp add: optional_chain_def fields_no_key_def env_empty_def)
  with constructor_throws_iff_no_key [of env_empty "Some fields_no_key"]
  show ?thesis
    by blast
qed

lemma constructor_key_only:
  "ChatAIBadgr_constructor env_empty (Some fields_key_only)
     = Inr (fields_key_only
          \<lparr>model := Some ''gpt-4'',
           configuration := Some [''baseURL'' \<mapsto> JStr ''https://aibadgr.com/api/v1'']\<rparr>)"
  by (simp add: ChatAIBadgr_constructor_def Let_def js_or_def truthy_def optional_chain_def
      spread_def fields_key_only_def env_empty_def)

lemma constructor_key_basic:
  "ChatAIBadgr_constructor env_empty (Some fields_key_basic)
     = Inr (fields_key_basic
          \<lparr>model := Some ''basic'',
           configuration := Some [''baseURL'' \<mapsto> JStr ''https://aibadgr.com/api/v1'']\<rparr>)"
  by (simp add: ChatAIBadgr_constructor_def Let_def js_or_def truthy_def optional_chain_def
      spread_def fields_key_basic_def env_empty_def)

text \<open>
  C4, as the specification states it: without a model name the effective model is the
  tier \<open>premium\<close>. It is not: with a key and no model, the model handed to the wrapped
  client is not \<open>premium\<close>.
\<close>

theorem constructor_default_premium_counterexample:
  "map_sum id model (ChatAIBadgr_constructor env_empty (Some fields_key_only))
     \<noteq> Inr (Some ''premium'')"
  by (simp add: constructor_key_only)

text \<open>
  C4, amended. Whenever construction succeeds, the model handed to the wrapped client is
  \<open>gpt-4\<close> if the option bag names no model (or an empty one), and the model of the
  option bag otherwise; so with \<open>model: "basic"\<close> it is \<open>basic\<close>.
\<close>

theorem constructor_model:
  "ChatAIBadgr_constructor getenv flds = Inr args \<Longrightarrow>
     (optional_chain flds model \<in> {None, Some []} \<longrightarrow> model args = Some ''gpt-4'')
     \<and> (optional_chain flds model \<notin> {None, Some []} \<longrightarrow> model args = optional_chain flds model)"
proof -
  assume a: "ChatAIBadgr_constructor getenv flds = Inr args"
  then have m: "model args = js_or (optional_chain flds model) (Some ''gpt-4'')"
    by (auto simp: ChatAIBadgr_constructor_def Let_def split: if_splits)
  show ?thesis
    unfolding m js_or_def falsy_iff [symmetric] by simp
qed

theorem constructor_model_witness:
  "(\<exists>args. ChatAIBadgr_constructor env_empty (Some fields_key_only) = Inr args
       \<and> model args = Some ''gpt-4'')
   \<and> (\<exists>args. ChatAIBadgr_constructor env_empty (Some fields_key_basic) = Inr args
       \<and> model args = Some ''basic'')"
proof -
  have n: "optional_chain (Some fields_key_only) model \<in> {None, Some []}"
    by (simp add: optional_chain_def fields_key_only_def)
  have b: "optional_chain (Some fields_key_basic) model = Some ''basic''"
    by (simp add: optional_chain_def fields_key_basic_def)
  then have b': "optional_chain (Some fields_key_basic) model \<notin> {None, Some []}"
    by simp
  from constructor_model [OF constructor_key_only] n
  have "model (fields_key_only
          \<lparr>model := Some ''gpt-4'',
           configuration := Some [''baseURL'' \<mapsto> JStr ''https://aibadgr.com/api/v1'']\<rparr>)
        = Some ''gpt-4''"
    by blast
  moreover from constructor_model [OF constructor_key_basic] b b'
  have "model (fields_key_basic
          \<lparr>model := Some ''basic'',
           configuration := Some [''baseURL'' \<mapsto> JStr ''https://aibadgr.com/api/v1'']\<rparr>)
        = Some ''basic''"
    by simp
  ultimately show ?thesis
    using constructor_key_only constructor_key_basic by blast
qed

text \<open>
  C8. Whatever the option bag holds, an endpoint block of the caller's own included, the
  bag handed to the wrapped client has the configuration block whose only entry is the
  base URL \<open>https://aibadgr.com/api/v1\<close>.
\<close>

theorem constructor_fixes_baseURL:
  "ChatAIBadgr_constructor getenv flds = Inr args
   \<Longrightarrow> configuration args = Some [''baseURL'' \<mapsto> JStr ''https://aibadgr.com/api/v1'']"
  by (auto simp: ChatAIBadgr_constructor_def Let_def split: if_splits)

theorem constructor_fixes_baseURL_witness:
  "\<exists>args. ChatAIBadgr_constructor env_example (Some fields_example) = Inr args
     \<and> configuration fields_example = Some [''baseURL'' \<mapsto> JStr ''https://example.org/v1'']
     \<and> configuration args = Some [''baseURL'' \<mapsto> JStr ''https://aibadgr.com/api/v1'']"
proof -
  have "\<exists>args. ChatAIBadgr_constructor env_example (Some fields_example) = Inr args"
    by (simp add: ChatAIBadgr_constructor_def Let_def js_or_def truthy_def optional_chain_def
        fields_example_def env_example_def)
  then obtain args where a: "ChatAIBadgr_constructor env_example (Some fields_example) = Inr args"
    by blast
  from constructor_fixes_baseURL [OF a] a show ?thesis
    by (simp add: fields_example_def)
qed


section \<open>Properties of serialization\<close>

text \<open>
  C7. Whatever record the inherited serializer builds for a client, the \<open>kwargs\<close> of
  the record \<open>toJSON\<close> returns have neither the key \<open>openai_api_key\<close>, under which
  the resolved API key is serialized, nor the key \<open>configuration\<close> of the endpoint
  block: the two keys are gone, not masked.
\<close>

theorem toJSON_removes_key_and_configuration:
  "toJSON super_toJSON this ''kwargs'' = Some (JObj kw)
   \<Longrightarrow> kw ''openai_api_key'' = None \<and> kw ''configuration'' = None"
proof -
  assume a: "toJSON super_toJSON this ''kwargs'' = Some (JObj kw)"
  show ?thesis
  proof (cases "super_toJSON this ''kwargs''")
    case None
    with a show ?thesis
      by (simp add: toJSON_def Let_def)
  next
    case (Some v)
    with a show ?thesis
      by (cases v) (auto simp: toJSON_def Let_def get_property_def)
  qed
qed

theorem toJSON_removes_key_and_configuration_witness:
  "kwargs_example ''openai_api_key'' \<noteq> None
   \<and> kwargs_example ''configuration'' \<noteq> None
   \<and> toJSON (\<lambda>c. serialized_example) () ''kwargs''
       = Some (JObj (kwargs_example(''openai_api_key'' := None, ''configuration'' := None)))
   \<and> (kwargs_example(''openai_api_key'' := None, ''configuration'' := None)) ''openai_api_key''
       = None
   \<and> (kwargs_example(''openai_api_key'' := None, ''configuration'' := None)) ''configuration''
       = None
   \<and> (kwargs_example(''openai_api_key'' := None, ''configuration'' := None)) ''model''
       = Some (JStr ''premium'')"
proof -
  have a: "toJSON (\<lambda>c. serialized_example) () ''kwargs''
     = Some (JObj (kwargs_example(''openai_api_key'' := None, ''configuration'' := None)))"
    by (simp add: toJSON_def Let_def get_property_def serialized_example_def)
  have b: "kwargs_example ''openai_api_key'' \<noteq> None" "kwargs_example ''configuration'' \<noteq> None"
    "(kwargs_example(''openai_api_key'' := None, ''configuration'' := None)) ''model''
       = Some (JStr ''premium'')"
    by (simp_all add: kwargs_example_def)
  from toJSON_removes_key_and_configuration [OF a] a b show ?thesis
    by blast
qed


section \<open>Properties of the profile table\<close>

lemma PROFILES_known:
  "PROFILES name = Some p \<Longrightarrow>
     name \<in> {''basic'', ''normal'', ''premium'', ''phi-3-mini'', ''mistral-7b'', ''llama3-8b-instruct''}
     \<and> (\<exists>i out. p = createProfile i out)"
  unfolding PROFILES_def by (auto split: if_splits)

lemma PROFILES_unknown:
  "name \<notin> {''basic'', ''normal'', ''premium'', ''phi-3-mini'', ''mistral-7b'', ''llama3-8b-instruct''}
   \<Longrightarrow> PROFILES name = None"
  unfolding PROFILES_def by simp

lemma createProfile_flags:
  "createProfile i out ''toolCalling'' = Some (JBool True)"
  "createProfile i out ''imageInputs'' = Some (JBool False)"
  "createProfile i out ''audioInputs'' = Some (JBool False)"
  "createProfile i out ''pdfInputs'' = Some (JBool False)"
  "createProfile i out ''videoInputs'' = Some (JBool False)"
  "createProfile i out ''reasoningOutput'' = Some (JBool False)"
  "createProfile i out ''imageOutputs'' = Some (JBool False)"
  "createProfile i out ''audioOutputs'' = Some (JBool False)"
  "createProfile i out ''videoOutputs'' = Some (JBool False)"
  "createProfile i out ''structuredOutput'' = Some (JBool False)"
  by (simp_all add: createProfile_def BASE_PROFILE_def)

lemma createProfile_other_fields:
  "k \<noteq> ''maxInputTokens'' \<Longrightarrow> k \<noteq> ''maxOutputTokens'' \<Longrightarrow>
     createProfile i out k = BASE_PROFILE k"
  by (simp add: createProfile_def map_add_def)

text \<open>
  C5. The table gives \<open>basic\<close> and \<open>phi-3-mini\<close> the limits 8192 and 4096, \<open>normal\<close>
  and \<open>mistral-7b\<close> the limits 16384 and 8192, \<open>premium\<close> and \<open>llama3-8b-instruct\<close>
  the limits 32768 and 16384; the profile of each power-user name is equal, as a whole
  object, to the profile of its tier.
\<close>

theorem PROFILES_token_limits:
  "PROFILES ''basic'' = Some (createProfile 8192 4096)
   \<and> PROFILES ''phi-3-mini'' = PROFILES ''basic''
   \<and> PROFILES ''normal'' = Some (createProfile 16384 8192)
   \<and> PROFILES ''mistral-7b'' = PROFILES ''normal''
   \<and> PROFILES ''premium'' = Some (createProfile 32768 16384)
   \<and> PROFILES ''llama3-8b-instruct'' = PROFILES ''premium''
   \<and> createProfile 8192 4096 ''maxInputTokens'' = Some (JNum 8192)
   \<and> createProfile 8192 4096 ''maxOutputTokens'' = Some (JNum 4096)
   \<and> createProfile 16384 8192 ''maxInputTokens'' = Some (JNum 16384)
   \<and> createProfile 16384 8192 ''maxOutputTokens'' = Some (JNum 8192)
   \<and> createProfile 32768 16384 ''maxInputTokens'' = Some (JNum 32768)
   \<and> createProfile 32768 16384 ''maxOutputTokens'' = Some (JNum 16384)"
  by (simp add: PROFILES_def createProfile_def)

text \<open>
  C6. For a model name that is none of the six keys of the table, the table has no
  entry and the lookup returns the empty profile, an object with no field; nothing is
  raised. The match is on the whole name: a prefix of a key, a key with a suffix and a
  key in another letter case are unknown names.
\<close>

theorem lookup_unknown_model:
  "modelName \<notin> {''basic'', ''normal'', ''premium'', ''phi-3-mini'', ''mistral-7b'', ''llama3-8b-instruct''}
   \<Longrightarrow> PROFILES modelName = None \<and> lookup modelName = Map.empty"
  by (simp add: lookup_def PROFILES_unknown)

theorem lookup_unknown_model_witness:
  "lookup ''totally-unknown-model'' = Map.empty \<and> lookup ''premium-plus'' = Map.empty
   \<and> lookup ''basi'' = Map.empty \<and> lookup ''Basic'' = Map.empty"
  using lookup_unknown_model [of "''totally-unknown-model''"]
    lookup_unknown_model [of "''premium-plus''"]
    lookup_unknown_model [of "''basi''"]
    lookup_unknown_model [of "''Basic''"]
  by simp

text \<open>
  C10. Every profile of the table has \<open>toolCalling\<close> true and the nine other
  capability flags false, and any two profiles of the table agree on every field but
  \<open>maxInputTokens\<close> and \<open>maxOutputTokens\<close>.
\<close>

theorem PROFILES_capability_flags:
  "PROFILES name = Some p \<Longrightarrow> PROFILES name' = Some q \<Longrightarrow>
     p ''toolCalling'' = Some (JBool True)
     \<and> p ''imageInputs'' = Some (JBool False)
     \<and> p ''audioInputs'' = Some (JBool False)
     \<and> p ''pdfInputs'' = Some (JBool False)
     \<and> p ''videoInputs'' = Some (JBool False)
     \<and> p ''reasoningOutput'' = Some (JBool False)
     \<and> p ''imageOutputs'' = Some (JBool False)
     \<and> p ''audioOutputs'' = Some (JBool False)
     \<and> p ''videoOutputs'' = Some (JBool False)
     \<and> p ''structuredOutput'' = Some (JBool False)
     \<and> (k \<noteq> ''maxInputTokens'' \<and> k \<noteq> ''maxOutputTokens'' \<longrightarrow> p k = q k)"
proof -
  assume a: "PROFILES name = Some p" and b: "PROFILES name' = Some q"
  from PROFILES_known [OF a] obtain i out where p: "p = createProfile i out"
    by (elim conjE exE)
  from PROFILES_known [OF b] obtain i' out' where q: "q = createProfile i' out'"
    by (elim conjE exE)
  have "createProfile i out k = createProfile i' out' k"
    if "k \<noteq> ''maxInputTokens''" "k \<noteq> ''maxOutputTokens''"
    using that by (simp add: createProfile_other_fields)
  then show ?thesis
    unfolding p q by (simp add: createProfile_flags)
qed

theorem PROFILES_capability_flags_witness:
  "PROFILES ''mistral-7b'' = Some (createProfile 16384 8192)
   \<and> PROFILES ''basic'' = Some (createProfile 8192 4096)
   \<and> createProfile 16384 8192 ''toolCalling'' = Some (JBool True)
   \<and> createProfile 16384 8192 ''structuredOutput'' = Some (JBool False)
   \<and> createProfile 16384 8192 ''imageInputs'' = createProfile 8192 4096 ''imageInputs''"
proof -
  have a: "PROFILES ''mistral-7b'' = Some (createProfile 16384 8192)"
    and b: "PROFILES ''basic'' = Some (createProfile 8192 4096)"
    by (simp_all add: PROFILES_def)
  have ne: "''imageInputs'' \<noteq> ''maxInputTokens'' \<and> ''imageInputs'' \<noteq> ''maxOutputTokens''"
    by simp
  from PROFILES_capability_flags [OF a b, of "''imageInputs''"] ne
  have "createProfile 16384 8192 ''toolCalling'' = Some (JBool True)"
    and "createProfile 16384 8192 ''structuredOutput'' = Some (JBool False)"
    and "createProfile 16384 8192 ''imageInputs'' = createProfile 8192 4096 ''imageInputs''"
    by blast+
  with a b show ?thesis
    by (intro conjI)
qed

end
